theory Spec2Isabelle
  imports Complex_Main
begin

section \<open>Waveforms, numpy values and the calls that leave the repository\<close>

text \<open>
  A waveform handed to an effect is a one-dimensional numpy array of finite samples,
  modelled as a list of real numbers: rounding and overflow are not part of the model.
  numpy arithmetic never raises on such values. Under the default error state a division
  by zero or an invalid operation gives a warning and the value inf, -inf or nan, and the
  computation carries on. The type \<open>npfloat\<close> holds the results: a finite value or one of
  the three special values. Zero carries no sign; the zero divisors that occur are sums
  of squares, which numpy computes as \<open>+0.0\<close>.
\<close>

type_synonym wav = "real list"
type_synonym path = string

datatype npfloat = Fin real | PInf | NInf | NaN

datatype error =
    ValueError
  | IndexError
  | FileNotFoundError
  | LibraryError string

text \<open>Sequencing of calls that may raise: the first error ends the computation.\<close>

definition and_then :: "error + 'a \<Rightarrow> ('a \<Rightarrow> error + 'b) \<Rightarrow> error + 'b" where
  "and_then m f = (case m of Inl e \<Rightarrow> Inl e | Inr x \<Rightarrow> f x)"

text \<open>
  What \<^verbatim>\<open>np.squeeze(np.load(path))\<close> can be: an array of no dimension (a file of one sample
  squeezes to that), a one-dimensional array, or an array that keeps two or more
  dimensions.
\<close>

datatype ndarray = Array0 real | Array1 "real list" | ArrayN

text \<open>
  The library calls and the file system, as the effects use them. \<open>walk_paths\<close> stands for
  \<^verbatim>\<open>list(walk_paths(root, suffix))\<close> (the walker's module is outside the modelled files; it
  raises when the directory cannot be listed), \<open>np_load\<close> for
  \<^verbatim>\<open>np.squeeze(np.load(path))\<close>, \<open>resample\<close> for
  \<^verbatim>\<open>librosa.resample(y, orig_sr=.., target_sr=.., res_type="kaiser_fast")\<close>,
  \<open>convolve\<close> for \<^verbatim>\<open>signal.convolve(in1, in2, mode="same")\<close> on two one-dimensional arrays
  and \<open>librosa_load\<close> for \<^verbatim>\<open>librosa.load(path, sr=None, mono=True)\<close>. Each may raise.
\<close>

record world =
  walk_paths :: "path \<Rightarrow> string \<Rightarrow> error + path list"
  np_load :: "path \<Rightarrow> error + ndarray"
  resample :: "wav \<Rightarrow> int \<Rightarrow> int \<Rightarrow> error + wav"
  convolve :: "wav \<Rightarrow> real list \<Rightarrow> error + wav"
  librosa_load :: "path \<Rightarrow> error + (wav \<times> int)"

text \<open>
  The values the process-wide random sources hand out during one call of \<open>apply\<close>, one
  field per call site: the raw integers behind \<^verbatim>\<open>random.choice\<close>,
  \<^verbatim>\<open>random.randint\<close> and \<^verbatim>\<open>random.uniform\<close>, and the samples of
  \<^verbatim>\<open>np.random.randn\<close> by position.
\<close>

record draws =
  choice_draw :: nat
  randint_draw :: nat
  uniform_draw :: nat
  randn_draw :: "nat \<Rightarrow> real"

definition random_choice :: "nat \<Rightarrow> 'a list \<Rightarrow> error + 'a" where
  "random_choice r seq =
     (if length seq = 0 then Inl IndexError else Inr (seq ! (r mod length seq)))"

definition random_randint :: "nat \<Rightarrow> int \<Rightarrow> int \<Rightarrow> error + int" where
  "random_randint r a b =
     (if b < a then Inl ValueError else Inr (a + int (r mod nat (b - a + 1))))"

definition random_random :: "nat \<Rightarrow> real" where
  "random_random r = real (r mod 2 ^ 53) / 2 ^ 53"

definition random_uniform :: "nat \<Rightarrow> real \<Rightarrow> real \<Rightarrow> real" where
  "random_uniform r a b = a + (b - a) * random_random r"

definition np_random_randn :: "draws \<Rightarrow> nat \<Rightarrow> real list" where
  "np_random_randn d n = map (randn_draw d) [0..<n]"

subsection \<open>numpy on finite one-dimensional arrays\<close>

definition np_abs :: "real list \<Rightarrow> real list" where
  "np_abs xs = map abs xs"

fun np_max :: "real list \<Rightarrow> error + real" where
  "np_max [] = Inl ValueError"
| "np_max (x # xs) = Inr (fold max xs x)"

definition np_square :: "real list \<Rightarrow> real list" where
  "np_square xs = map (\<lambda>x. x ^ 2) xs"

definition np_sum :: "real list \<Rightarrow> real" where
  "np_sum xs = sum_list xs"

text \<open>A finite array times a finite scalar; the finite results are stated with it.\<close>

definition np_scale :: "real list \<Rightarrow> real \<Rightarrow> real list" where
  "np_scale xs c = map (\<lambda>x. x * c) xs"

definition np_pad :: "real list \<Rightarrow> nat \<times> nat \<Rightarrow> real list" where
  "np_pad xs w = replicate (fst w) 0 @ xs @ replicate (snd w) 0"

definition np_zeros :: "nat \<Rightarrow> real list" where
  "np_zeros n = replicate n 0"

text \<open>
  \<^verbatim>\<open>padded[start : start + len(noise)] = noise\<close>: the slice is cut at the end of the
  array, and the assignment raises unless the noise has the slice's length or one element.
\<close>

definition slice_assign :: "real list \<Rightarrow> nat \<Rightarrow> real list \<Rightarrow> error + real list" where
  "slice_assign padded start noise =
     (let stop = min (start + length noise) (length padded);
          n = stop - start
      in if length noise = n then Inr (take start padded @ noise @ drop stop padded)
         else if length noise = 1 then Inr (take start padded @ replicate n (hd noise) @ drop stop padded)
         else Inl ValueError)"

subsection \<open>numpy arithmetic with inf and nan\<close>

text \<open>The quotient of two finite scalars; the divisor may be zero.\<close>

definition np_true_divide :: "real \<Rightarrow> real \<Rightarrow> npfloat" where
  "np_true_divide x y =
     (if y \<noteq> 0 then Fin (x / y)
      else if 0 < x then PInf
      else if x < 0 then NInf
      else NaN)"

fun np_sqrt :: "npfloat \<Rightarrow> npfloat" where
  "np_sqrt (Fin x) = (if x < 0 then NaN else Fin (sqrt x))"
| "np_sqrt PInf = PInf"
| "np_sqrt NInf = NaN"
| "np_sqrt NaN = NaN"

fun np_mul :: "npfloat \<Rightarrow> npfloat \<Rightarrow> npfloat" where
  "np_mul (Fin x) (Fin y) = Fin (x * y)"
| "np_mul NaN b = NaN"
| "np_mul a NaN = NaN"
| "np_mul (Fin x) PInf = (if 0 < x then PInf else if x < 0 then NInf else NaN)"
| "np_mul (Fin x) NInf = (if 0 < x then NInf else if x < 0 then PInf else NaN)"
| "np_mul PInf (Fin y) = (if 0 < y then PInf else if y < 0 then NInf else NaN)"
| "np_mul NInf (Fin y) = (if 0 < y then NInf else if y < 0 then PInf else NaN)"
| "np_mul PInf PInf = PInf"
| "np_mul PInf NInf = NInf"
| "np_mul NInf PInf = NInf"
| "np_mul NInf NInf = PInf"

fun np_plus :: "npfloat \<Rightarrow> npfloat \<Rightarrow> npfloat" where
  "np_plus (Fin x) (Fin y) = Fin (x + y)"
| "np_plus NaN b = NaN"
| "np_plus a NaN = NaN"
| "np_plus PInf NInf = NaN"
| "np_plus NInf PInf = NaN"
| "np_plus PInf b = PInf"
| "np_plus a PInf = PInf"
| "np_plus NInf b = NInf"
| "np_plus a NInf = NInf"

text \<open>A finite array as an array of numpy values, and an array times a scalar.\<close>

definition as_npfloat :: "real list \<Rightarrow> npfloat list" where
  "as_npfloat xs = map Fin xs"

definition np_multiply :: "npfloat list \<Rightarrow> npfloat \<Rightarrow> npfloat list" where
  "np_multiply xs c = map (\<lambda>x. np_mul x c) xs"

text \<open>Elementwise addition with numpy's broadcasting of a one-element array.\<close>

definition np_add :: "npfloat list \<Rightarrow> npfloat list \<Rightarrow> error + npfloat list" where
  "np_add xs ys =
     (if length xs = length ys then Inr (map2 np_plus xs ys)
      else if length xs = 1 then Inr (map (\<lambda>y. np_plus (hd xs) y) ys)
      else if length ys = 1 then Inr (map (\<lambda>x. np_plus x (hd ys)) xs)
      else Inl ValueError)"

section \<open>RandomRIR\<close>

record random_rir =
  rir_dir :: "path option"
  rir_rate :: int
  rir_suffix :: string
  deterministic :: bool

datatype warning = LengthMismatch nat nat

text \<open>
  The cached property: the walk runs on the first access, and an error of the walk
  leaves \<open>apply\<close> at that access.
\<close>

definition rir_paths :: "world \<Rightarrow> random_rir \<Rightarrow> error + path list" where
  "rir_paths w self =
     (case rir_dir self of None \<Rightarrow> Inr [] | Some d \<Rightarrow> walk_paths w d (rir_suffix self))"

definition sample_rir :: "world \<Rightarrow> draws \<Rightarrow> random_rir \<Rightarrow> error + ndarray option" where
  "sample_rir w d self =
     and_then (rir_paths w self) (\<lambda>paths.
       if length paths = 0 then Inr None
       else and_then
         (if deterministic self then Inr (paths ! 0)
          else random_choice (choice_draw d) paths)
         (\<lambda>rir_path. and_then (np_load w rir_path) (\<lambda>rir. Inr (Some rir))))"

text \<open>Lines 57 to 59 of \<^verbatim>\<open>custom.py\<close>: the peak and the rescaling to 0.98.\<close>

definition rir_normalize :: "wav \<Rightarrow> error + wav" where
  "rir_normalize wav =
     and_then (np_max (np_abs wav))
       (\<lambda>actlev. Inr (if actlev > 0.99 then map (\<lambda>x. (x / actlev) * 0.98) wav else wav))"

text \<open>
  Lines 52 to 61: resample, convolve, normalise, resample back. The convolution raises
  \<open>ValueError\<close> unless the impulse response has one dimension, as the waveform has.
\<close>

definition rir_resampled :: "world \<Rightarrow> draws \<Rightarrow> random_rir \<Rightarrow> wav \<Rightarrow> int \<Rightarrow> error + wav" where
  "rir_resampled w d self wav sr =
     and_then (resample w wav sr (rir_rate self)) (\<lambda>wav1.
     and_then (sample_rir w d self) (\<lambda>rir.
     and_then (case rir of Some (Array1 k) \<Rightarrow> convolve w wav1 k | _ \<Rightarrow> Inl ValueError) (\<lambda>wav2.
     and_then (rir_normalize wav2) (\<lambda>wav3.
     resample w wav3 (rir_rate self) sr))))"

text \<open>Lines 63 to 69: the warning, then padding or truncation on the right.\<close>

definition rir_fix_length :: "nat \<Rightarrow> wav \<Rightarrow> warning list \<times> wav" where
  "rir_fix_length length0 wav =
     (if abs (int length0 - int (length wav)) > 10 then [LengthMismatch length0 (length wav)] else [],
      if length0 > length wav then np_pad wav (0, length0 - length wav)
      else if length0 < length wav then take length0 wav
      else wav)"

definition RandomRIR_apply ::
  "world \<Rightarrow> draws \<Rightarrow> random_rir \<Rightarrow> wav \<Rightarrow> int \<Rightarrow> error + (warning list \<times> wav)" where
  "RandomRIR_apply w d self wav sr =
     and_then (rir_paths w self) (\<lambda>paths.
       if length paths = 0 then Inr ([], wav)
       else and_then (rir_resampled w d self wav sr)
              (\<lambda>wav4. Inr (rir_fix_length (length wav) wav4)))"

section \<open>RandomGaussianNoise\<close>

record random_gaussian_noise =
  alpha_range :: "real \<times> real"

definition RandomGaussianNoise_init :: "random_gaussian_noise" where
  "RandomGaussianNoise_init = \<lparr>alpha_range = (0.8, 1)\<rparr>"

definition gaussian_alpha :: "random_gaussian_noise \<Rightarrow> draws \<Rightarrow> real" where
  "gaussian_alpha self d =
     random_uniform (uniform_draw d) (fst (alpha_range self)) (snd (alpha_range self))"

text \<open>Lines 80 to 83: the drawn noise, the two energies and the rescaled noise.\<close>

definition gaussian_noise :: "draws \<Rightarrow> wav \<Rightarrow> npfloat list" where
  "gaussian_noise d wav =
     (let noise = np_random_randn d (length wav);
          noise_energy = np_sum (np_square noise);
          wav_energy = np_sum (np_square wav)
      in np_multiply (as_npfloat noise) (np_sqrt (np_true_divide wav_energy noise_energy)))"

definition RandomGaussianNoise_apply ::
  "random_gaussian_noise \<Rightarrow> draws \<Rightarrow> wav \<Rightarrow> int \<Rightarrow> error + npfloat list" where
  "RandomGaussianNoise_apply self d wav sr =
     (let noise = gaussian_noise d wav;
          alpha = gaussian_alpha self d
      in np_add (np_multiply (as_npfloat wav) (Fin alpha)) (np_multiply noise (Fin (1 - alpha))))"

section \<open>RandomWhamNoise\<close>

record random_wham_noise =
  noise_dir :: "path option"
  wham_alpha_range :: "real \<times> real"
  wham_deterministic :: bool

definition noise_paths :: "world \<Rightarrow> random_wham_noise \<Rightarrow> error + path list" where
  "noise_paths w self =
     (case noise_dir self of None \<Rightarrow> Inr [] | Some d \<Rightarrow> walk_paths w d ''.wav'')"

definition sample_noise ::
  "world \<Rightarrow> draws \<Rightarrow> random_wham_noise \<Rightarrow> error + (wav \<times> int) option" where
  "sample_noise w d self =
     and_then (noise_paths w self) (\<lambda>paths.
       if length paths = 0 then Inr None
       else and_then
         (if wham_deterministic self then Inr (paths ! 0)
          else random_choice (choice_draw d) paths)
         (\<lambda>path. and_then (librosa_load w path) (\<lambda>r. Inr (Some r))))"

text \<open>Lines 116 to 123: the noise embedded in zeros, or cropped, to the input's length.\<close>

definition wham_align :: "draws \<Rightarrow> random_wham_noise \<Rightarrow> wav \<Rightarrow> real list \<Rightarrow> error + real list" where
  "wham_align d self wav noise =
     (if length noise < length wav then
        and_then
          (if wham_deterministic self then Inr 0
           else random_randint (randint_draw d) 0 (int (length wav) - int (length noise)))
          (\<lambda>start. slice_assign (np_zeros (length wav)) (nat start) noise)
      else if length noise > length wav then
        and_then
          (if wham_deterministic self then Inr 0
           else random_randint (randint_draw d) 0 (int (length noise) - int (length wav)))
          (\<lambda>start. Inr (take (length wav) (drop (nat start) noise)))
      else Inr noise)"

definition wham_alpha :: "random_wham_noise \<Rightarrow> draws \<Rightarrow> real" where
  "wham_alpha self d =
     random_uniform (uniform_draw d) (fst (wham_alpha_range self)) (snd (wham_alpha_range self))"

text \<open>
  Lines 124 to 128: the two energies, each with its \<open>1e-7\<close>, the rescaled noise and the
  mix of the input with it.
\<close>

definition wham_mix :: "random_wham_noise \<Rightarrow> draws \<Rightarrow> wav \<Rightarrow> real list \<Rightarrow> error + npfloat list" where
  "wham_mix self d wav noise =
     (let noise_energy = np_sum (np_square noise) + 1 / 10 ^ 7;
          wav_energy = np_sum (np_square wav) + 1 / 10 ^ 7;
          noise' = np_multiply (as_npfloat noise) (np_sqrt (np_true_divide wav_energy noise_energy));
          alpha = wham_alpha self d
      in np_add (np_multiply (as_npfloat wav) (Fin alpha)) (np_multiply noise' (Fin (1 - alpha))))"

definition RandomWhamNoise_apply ::
  "world \<Rightarrow> draws \<Rightarrow> random_wham_noise \<Rightarrow> wav \<Rightarrow> int \<Rightarrow> error + npfloat list" where
  "RandomWhamNoise_apply w d self wav sr =
     and_then (noise_paths w self) (\<lambda>paths.
       if length paths = 0 then Inr (as_npfloat wav)
       else and_then (sample_noise w d self) (\<lambda>sampled.
         case sampled of
           None \<Rightarrow> Inr (as_npfloat wav)
         | Some (noise, nsr) \<Rightarrow>
             and_then (if nsr \<noteq> sr then resample w noise nsr sr else Inr noise) (\<lambda>noise1.
             and_then (wham_align d self wav noise1) (\<lambda>noise2.
             wham_mix self d wav noise2))))"

section \<open>Distorter\<close>

text \<open>
  The effect tree. \<open>Chain\<close>, \<open>Choice\<close> (with its optional weights \<open>p\<close>) and \<open>Permutation\<close>
  hold their children in the order of the constructor call; the effects of
  \<^verbatim>\<open>sox.py\<close> are leaves, \<open>RandomReverb\<close> with the \<open>deterministic\<close> argument it was
  given, if any.
\<close>

datatype effect =
    RandomRIR random_rir
  | RandomReverb "bool option"
  | RandomGaussianNoise random_gaussian_noise
  | RandomWhamNoise random_wham_noise
  | RandomOverdrive
  | RandomEqualizer
  | RandomLowpassDistorter
  | RandomBandpassDistorter
  | Chain "effect list"
  | Choice "effect list" "real list option"
  | Permutation "effect list"

record HParams =
  enable_rir :: bool
  hp_rir_dir :: "path option"
  enable_reverb :: bool
  enable_gaussian_noise :: bool
  enable_wham_noise :: bool
  hp_wham_noise_dir :: "path option"
  enable_overdrive :: bool
  enable_equalizer :: bool
  enable_filters :: bool

text \<open>The constructors with the defaults of their signatures.\<close>

definition RandomRIR_init :: "path option \<Rightarrow> bool \<Rightarrow> random_rir" where
  "RandomRIR_init dir det =
     \<lparr>rir_dir = dir, rir_rate = 44000, rir_suffix = ''.npy'', deterministic = det\<rparr>"

definition RandomWhamNoise_init :: "path option \<Rightarrow> bool \<Rightarrow> random_wham_noise" where
  "RandomWhamNoise_init dir det =
     \<lparr>noise_dir = dir, wham_alpha_range = (0.8, 1.0), wham_deterministic = det\<rparr>"

definition training_effects :: "HParams \<Rightarrow> effect list" where
  "training_effects hp =
     (let effects = [];
          effects = (if enable_rir hp
                     then effects @ [RandomRIR (RandomRIR_init (hp_rir_dir hp) False)] else effects);
          effects = (if enable_reverb hp then effects @ [RandomReverb None] else effects);
          effects = (if enable_gaussian_noise hp
                     then effects @ [RandomGaussianNoise RandomGaussianNoise_init] else effects);
          effects = (if enable_wham_noise hp
                     then effects @ [RandomWhamNoise (RandomWhamNoise_init (hp_wham_noise_dir hp) False)]
                     else effects);
          effects = (if enable_overdrive hp then effects @ [RandomOverdrive] else effects);
          effects = (if enable_equalizer hp then effects @ [RandomEqualizer] else effects);
          effects = (if enable_filters hp
                     then effects @ [Choice [RandomLowpassDistorter, RandomBandpassDistorter] None]
                     else effects)
      in effects)"

definition evaluation_effects :: "HParams \<Rightarrow> effect list" where
  "evaluation_effects hp =
     (let effects = [];
          effects = (if enable_rir hp
                     then effects @ [RandomRIR (RandomRIR_init (hp_rir_dir hp) True)] else effects);
          effects = (if enable_reverb hp then effects @ [RandomReverb (Some True)] else effects)
      in effects)"

text \<open>\<open>Distorter\<close> is a \<open>Chain\<close>: the value is the chain its constructor builds.\<close>

definition Distorter :: "HParams \<Rightarrow> bool \<Rightarrow> string \<Rightarrow> effect" where
  "Distorter hp training mode =
     (if training then
        let permutation = Permutation (training_effects hp)
        in if mode = ''denoiser'' then Chain [permutation]
           else Chain [Choice [permutation, Chain []] (Some [0.8, 0.2])]
      else Chain (evaluation_effects hp))"

section \<open>A world and draws for the concrete runs\<close>

text \<open>
  A world with a fixed result of the directory walk, one impulse response and one noise
  clip. Its resampler returns the input when both rates agree, as librosa does, and
  offers no other rate; its convolution knows the two-sample impulse \<open>[1, 0]\<close> only,
  which in mode \<open>same\<close> leaves an input of two or more samples as it is.
\<close>

definition example_world :: "error + path list \<Rightarrow> ndarray \<Rightarrow> wav \<times> int \<Rightarrow> world" where
  "example_world walked rir clip =
     \<lparr>walk_paths = (\<lambda>dir suffix. walked),
      np_load = (\<lambda>p. Inr rir),
      resample = (\<lambda>y orig_sr target_sr.
        if orig_sr = target_sr then Inr y else Inl (LibraryError ''resample'')),
      convolve = (\<lambda>in1 in2.
        if in2 = [1, 0] \<and> 2 \<le> length in1 then Inr in1 else Inl (LibraryError ''convolve'')),
      librosa_load = (\<lambda>p. Inr clip)\<rparr>"

definition example_draws :: "nat \<Rightarrow> (nat \<Rightarrow> real) \<Rightarrow> draws" where
  "example_draws u g = \<lparr>choice_draw = 0, randint_draw = 0, uniform_draw = u, randn_draw = g\<rparr>"

section \<open>Basic facts\<close>

lemma and_then_Inr [simp]: "and_then (Inr x) f = f x"
  by (simp add: and_then_def)

lemma and_then_Inl [simp]: "and_then (Inl e) f = Inl e"
  by (simp add: and_then_def)

lemma and_then_eq_Inr: "and_then m f = Inr y \<longleftrightarrow> (\<exists>x. m = Inr x \<and> f x = Inr y)"
  by (cases m) simp_all

lemma rir_fix_length_length: "length (snd (rir_fix_length n y)) = n"
  by (simp add: rir_fix_length_def np_pad_def)

lemma random_randint_range:
  "random_randint r a b = Inr s \<Longrightarrow> a \<le> s \<and> s \<le> b"
proof -
  assume h: "random_randint r a b = Inr s"
  then have ab: "a \<le> b" and s: "s = a + int (r mod nat (b - a + 1))"
    by (auto simp: random_randint_def split: if_splits)
  have "0 < nat (b - a + 1)"
    using ab by simp
  then have "r mod nat (b - a + 1) < nat (b - a + 1)"
    by (rule mod_less_divisor)
  then show ?thesis using s ab by linarith
qed

lemma slice_assign_length:
  "slice_assign padded start noise = Inr out \<Longrightarrow> length out = length padded"
  by (auto simp: slice_assign_def Let_def split: if_splits)

lemma wham_align_length:
  assumes "wham_align d self wav noise = Inr out"
  shows "length out = length wav"
proof -
  consider "length noise < length wav" | "length noise > length wav" | "length noise = length wav"
    by linarith
  then show ?thesis
  proof cases
    case 1
    then obtain start where "slice_assign (np_zeros (length wav)) (nat start) noise = Inr out"
      using assms by (auto simp: wham_align_def and_then_eq_Inr)
    then show ?thesis using slice_assign_length by (fastforce simp: np_zeros_def)
  next
    case 2
    then obtain start where st: "(if wham_deterministic self then Inr 0
           else random_randint (randint_draw d) 0 (int (length noise) - int (length wav))) = Inr start"
      and out: "out = take (length wav) (drop (nat start) noise)"
      using assms by (auto simp: wham_align_def and_then_eq_Inr)
    have "0 \<le> start \<and> start \<le> int (length noise) - int (length wav)"
      using st 2 random_randint_range by (auto split: if_splits)
    then show ?thesis using out by (simp add: min_def) linarith
  next
    case 3
    then show ?thesis using assms by (simp add: wham_align_def)
  qed
qed

lemma length_as_npfloat [simp]: "length (as_npfloat xs) = length xs"
  by (simp add: as_npfloat_def)

lemma length_np_multiply [simp]: "length (np_multiply xs c) = length xs"
  by (simp add: np_multiply_def)

lemma length_randn [simp]: "length (np_random_randn d n) = n"
  by (simp add: np_random_randn_def)

lemma np_add_same_length:
  "length xs = length ys \<Longrightarrow> np_add xs ys = Inr (map2 np_plus xs ys)"
  by (simp add: np_add_def)

lemma np_multiply_Fin: "np_multiply (as_npfloat xs) (Fin c) = as_npfloat (np_scale xs c)"
  by (simp add: np_multiply_def as_npfloat_def np_scale_def)

lemma np_add_Fin:
  "length xs = length ys \<Longrightarrow>
     np_add (as_npfloat xs) (as_npfloat ys) = Inr (as_npfloat (map2 (+) xs ys))"
  by (induction xs ys rule: list_induct2) (simp_all add: np_add_def as_npfloat_def)

lemma np_add_scale:
  assumes "length xs = length ys"
  shows "np_add (np_multiply (as_npfloat xs) (Fin a)) (np_multiply (as_npfloat ys) (Fin b))
     = Inr (as_npfloat (map2 (\<lambda>x y. x * a + y * b) xs ys))"
proof -
  have "length (np_scale xs a) = length (np_scale ys b)"
    using assms by (simp add: np_scale_def)
  then have "np_add (as_npfloat (np_scale xs a)) (as_npfloat (np_scale ys b))
      = Inr (as_npfloat (map2 (+) (np_scale xs a) (np_scale ys b)))"
    by (rule np_add_Fin)
  moreover have "map2 (+) (np_scale xs a) (np_scale ys b) = map2 (\<lambda>x y. x * a + y * b) xs ys"
    by (simp add: np_scale_def zip_map_map split_def)
  ultimately show ?thesis by (simp add: np_multiply_Fin)
qed

lemma gaussian_noise_length [simp]: "length (gaussian_noise d wav) = length wav"
  by (simp add: gaussian_noise_def Let_def)

lemma RandomGaussianNoise_apply_returns:
  "RandomGaussianNoise_apply self d wav sr =
     Inr (map2 np_plus (np_multiply (as_npfloat wav) (Fin (gaussian_alpha self d)))
            (np_multiply (gaussian_noise d wav) (Fin (1 - gaussian_alpha self d))))"
  by (simp add: RandomGaussianNoise_apply_def Let_def np_add_same_length)

lemma wham_mix_length:
  "length noise = length wav \<Longrightarrow> wham_mix self d wav noise = Inr out \<Longrightarrow> length out = length wav"
  by (auto simp: wham_mix_def Let_def np_add_same_length)

lemmas example_defs = example_world_def example_draws_def RandomRIR_init_def
  RandomWhamNoise_init_def RandomGaussianNoise_init_def

lemmas rir_defs = RandomRIR_apply_def rir_paths_def rir_resampled_def sample_rir_def
  random_choice_def rir_normalize_def np_abs_def rir_fix_length_def

lemmas gaussian_defs = RandomGaussianNoise_apply_def gaussian_noise_def np_random_randn_def
  np_sum_def np_square_def np_true_divide_def np_multiply_def as_npfloat_def gaussian_alpha_def
  random_uniform_def random_random_def np_add_def upt_rec

lemmas wham_defs = RandomWhamNoise_apply_def noise_paths_def sample_noise_def random_choice_def
  wham_align_def random_randint_def wham_mix_def
  np_sum_def np_square_def np_true_divide_def np_multiply_def as_npfloat_def wham_alpha_def
  random_uniform_def random_random_def np_add_def slice_assign_def np_zeros_def

section \<open>Length invariance\<close>

text \<open>
  Claim C1. \<open>RandomGaussianNoise.apply\<close> returns for every input waveform, sample rate and
  draw, a silent or empty input and an all-zero draw included, and the waveform it returns
  has the length of the input. Whenever \<open>apply\<close> of \<open>RandomRIR\<close> or \<open>RandomWhamNoise\<close> returns
  a waveform, for any input, sample rate, random draws and behaviour of the library
  calls, the returned waveform has the length of the input.
\<close>

theorem apply_preserves_length:
  "(RandomRIR_apply w d r wav sr = Inr (ws, out1) \<longrightarrow> length out1 = length wav) \<and>
   (\<exists>out2. RandomGaussianNoise_apply g d wav sr = Inr out2 \<and> length out2 = length wav) \<and>
   (RandomWhamNoise_apply w d n wav sr = Inr out3 \<longrightarrow> length out3 = length wav)"
proof (intro conjI impI)
  assume "RandomRIR_apply w d r wav sr = Inr (ws, out1)"
  then have "out1 = wav \<or> (\<exists>y. out1 = snd (rir_fix_length (length wav) y))"
    by (auto simp: RandomRIR_apply_def and_then_eq_Inr split: if_splits) (metis snd_conv)
  then show "length out1 = length wav"
    by (auto simp: rir_fix_length_length)
next
  show "\<exists>out2. RandomGaussianNoise_apply g d wav sr = Inr out2 \<and> length out2 = length wav"
    by (simp add: RandomGaussianNoise_apply_returns)
next
  assume h: "RandomWhamNoise_apply w d n wav sr = Inr out3"
  then obtain paths where p: "noise_paths w n = Inr paths"
    and h': "(if length paths = 0 then Inr (as_npfloat wav)
       else and_then (sample_noise w d n) (\<lambda>sampled.
         case sampled of
           None \<Rightarrow> Inr (as_npfloat wav)
         | Some (noise, nsr) \<Rightarrow>
             and_then (if nsr \<noteq> sr then resample w noise nsr sr else Inr noise) (\<lambda>noise1.
             and_then (wham_align d n wav noise1) (\<lambda>noise2.
             wham_mix n d wav noise2)))) = Inr out3"
    by (auto simp: RandomWhamNoise_apply_def and_then_eq_Inr)
  show "length out3 = length wav"
  proof (cases "length paths = 0")
    case True
    then show ?thesis using h' by auto
  next
    case False
    then obtain sampled where s: "sample_noise w d n = Inr sampled"
      and rest: "(case sampled of None \<Rightarrow> Inr (as_npfloat wav)
        | Some (noise, nsr) \<Rightarrow>
            and_then (if nsr \<noteq> sr then resample w noise nsr sr else Inr noise) (\<lambda>noise1.
            and_then (wham_align d n wav noise1) (\<lambda>noise2.
            wham_mix n d wav noise2))) = Inr out3"
      using h' by (auto simp: and_then_eq_Inr)
    show ?thesis
    proof (cases sampled)
      case None
      then show ?thesis using rest by auto
    next
      case (Some p)
      from Some rest obtain n1 n2 where "wham_align d n wav n1 = Inr n2" "wham_mix n d wav n2 = Inr out3"
        by (cases p) (auto simp: and_then_eq_Inr)
      then show ?thesis using wham_align_length wham_mix_length by metis
    qed
  qed
qed

theorem apply_preserves_length_witness:
  "RandomRIR_apply (example_world (Inr [''a.npy'']) (Array1 [1, 0]) ([1, 1, 5], 44000))
     (example_draws 0 (\<lambda>i. 1)) (RandomRIR_init (Some ''rirs'') False) [1, - 1] 44000
     = Inr ([], [49 / 50, - (49 / 50)]) \<and>
   length [49 / 50, - (49 / 50) :: real] = length [1, - 1 :: real] \<and>
   RandomGaussianNoise_apply RandomGaussianNoise_init (example_draws 0 (\<lambda>i. 1)) [1, - 1] 44000
     = Inr [Fin 1, Fin (- (3 / 5))] \<and>
   RandomGaussianNoise_apply RandomGaussianNoise_init (example_draws 0 (\<lambda>i. 0)) [1, - 1] 44000
     = Inr [NaN, NaN] \<and>
   RandomGaussianNoise_apply RandomGaussianNoise_init (example_draws 0 (\<lambda>i. 1)) [] 44000
     = Inr [] \<and>
   RandomWhamNoise_apply (example_world (Inr [''a.wav'']) (Array1 [1, 0]) ([1, 1, 5], 44000))
     (example_draws 0 (\<lambda>i. 1)) (RandomWhamNoise_init (Some ''noise'') False) [1, - 1] 44000
     = Inr [Fin 1, Fin (- (3 / 5))] \<and>
   length [Fin 1, Fin (- (3 / 5))] = length [1, - 1 :: real]"
proof -
  have r: "RandomRIR_apply (example_world (Inr [''a.npy'']) (Array1 [1, 0]) ([1, 1, 5], 44000))
     (example_draws 0 (\<lambda>i. 1)) (RandomRIR_init (Some ''rirs'') False) [1, - 1] 44000
     = Inr ([], [49 / 50, - (49 / 50)])"
    by (simp add: example_defs rir_defs)
  have g: "RandomGaussianNoise_apply RandomGaussianNoise_init (example_draws 0 (\<lambda>i. 1)) [1, - 1] 44000
     = Inr [Fin 1, Fin (- (3 / 5))]"
    by (simp add: example_defs gaussian_defs)
  have g0: "RandomGaussianNoise_apply RandomGaussianNoise_init (example_draws 0 (\<lambda>i. 0)) [1, - 1] 44000
     = Inr [NaN, NaN]"
    by (simp add: example_defs gaussian_defs)
  have ge: "RandomGaussianNoise_apply RandomGaussianNoise_init (example_draws 0 (\<lambda>i. 1)) [] 44000
     = Inr []"
    by (simp add: example_defs gaussian_defs)
  have n: "RandomWhamNoise_apply (example_world (Inr [''a.wav'']) (Array1 [1, 0]) ([1, 1, 5], 44000))
     (example_draws 0 (\<lambda>i. 1)) (RandomWhamNoise_init (Some ''noise'') False) [1, - 1] 44000
     = Inr [Fin 1, Fin (- (3 / 5))]"
    by (simp add: example_defs wham_defs)
  show ?thesis
    using r g g0 ge n
      apply_preserves_length [of "example_world (Inr [''a.npy'']) (Array1 [1, 0]) ([1, 1, 5], 44000)"
        "example_draws 0 (\<lambda>i. 1)" "RandomRIR_init (Some ''rirs'') False" "[1, - 1]" 44000
        "[]" "[49 / 50, - (49 / 50)]" RandomGaussianNoise_init
        "RandomWhamNoise_init (Some ''noise'') False" "[Fin 1, Fin (- (3 / 5))]"]
      apply_preserves_length [of "example_world (Inr [''a.wav'']) (Array1 [1, 0]) ([1, 1, 5], 44000)"
        "example_draws 0 (\<lambda>i. 1)" "RandomRIR_init (Some ''rirs'') False" "[1, - 1]" 44000
        "[]" "[49 / 50, - (49 / 50)]" RandomGaussianNoise_init
        "RandomWhamNoise_init (Some ''noise'') False" "[Fin 1, Fin (- (3 / 5))]"]
    by simp
qed

section \<open>Empty catalogs\<close>

text \<open>
  Claim C3, as amended. With an empty catalog, that is a directory of \<open>None\<close> or a
  directory whose walk finds no matching file, \<open>RandomRIR.apply\<close> and
  \<open>RandomWhamNoise.apply\<close> return the input waveform itself, with no warning and no error,
  whatever the input, the sample rate, the draws and the library calls.
\<close>

theorem empty_catalog_is_identity:
  "(rir_paths w r = Inr [] \<longrightarrow> RandomRIR_apply w d r wav sr = Inr ([], wav)) \<and>
   (noise_paths w n = Inr [] \<longrightarrow> RandomWhamNoise_apply w d n wav sr = Inr (as_npfloat wav)) \<and>
   (rir_dir r = None \<longrightarrow> rir_paths w r = Inr []) \<and>
   (noise_dir n = None \<longrightarrow> noise_paths w n = Inr []) \<and>
   (rir_dir r = Some dir \<longrightarrow> rir_paths w r = walk_paths w dir (rir_suffix r)) \<and>
   (noise_dir n = Some dir \<longrightarrow> noise_paths w n = walk_paths w dir ''.wav'')"
  by (simp add: RandomRIR_apply_def RandomWhamNoise_apply_def rir_paths_def noise_paths_def)

theorem empty_catalog_is_identity_witness:
  "rir_paths (example_world (Inr []) (Array1 [1, 0]) ([1], 16000)) (RandomRIR_init (Some ''rirs'') False)
     = Inr [] \<and>
   RandomRIR_apply (example_world (Inr []) (Array1 [1, 0]) ([1], 16000)) (example_draws 0 (\<lambda>i. 1))
     (RandomRIR_init (Some ''rirs'') False) [1, - 1] 16000 = Inr ([], [1, - 1]) \<and>
   noise_paths (example_world (Inr []) (Array1 [1, 0]) ([1], 16000))
     (RandomWhamNoise_init (Some ''noise'') False) = Inr [] \<and>
   RandomWhamNoise_apply (example_world (Inr []) (Array1 [1, 0]) ([1], 16000)) (example_draws 0 (\<lambda>i. 1))
     (RandomWhamNoise_init (Some ''noise'') False) [1, - 1] 16000 = Inr [Fin 1, Fin (- 1)] \<and>
   rir_dir (RandomRIR_init None True) = None \<and>
   RandomRIR_apply (example_world (Inr [''a.npy'']) (Array1 [1, 0]) ([1], 16000)) (example_draws 0 (\<lambda>i. 1))
     (RandomRIR_init None True) [1, - 1] 16000 = Inr ([], [1, - 1]) \<and>
   noise_dir (RandomWhamNoise_init None True) = None \<and>
   RandomWhamNoise_apply (example_world (Inr [''a.wav'']) (Array1 [1, 0]) ([1], 16000)) (example_draws 0 (\<lambda>i. 1))
     (RandomWhamNoise_init None True) [1, - 1] 16000 = Inr [Fin 1, Fin (- 1)]"
proof -
  let ?d = "example_draws 0 (\<lambda>i. 1)"
  let ?e = "example_world (Inr []) (Array1 [1, 0]) ([1], 16000)"
  have e1: "rir_paths ?e (RandomRIR_init (Some ''rirs'') False) = Inr []"
    by (simp add: example_defs rir_paths_def)
  have e2: "noise_paths ?e (RandomWhamNoise_init (Some ''noise'') False) = Inr []"
    by (simp add: example_defs noise_paths_def)
  have n1: "rir_dir (RandomRIR_init None True) = None"
    by (simp add: example_defs)
  have n2: "noise_dir (RandomWhamNoise_init None True) = None"
    by (simp add: example_defs)
  show ?thesis
    using e1 e2 n1 n2
      empty_catalog_is_identity [of ?e "RandomRIR_init (Some ''rirs'') False" ?d "[1, - 1]" 16000
        "RandomWhamNoise_init (Some ''noise'') False"]
      empty_catalog_is_identity [of "example_world (Inr [''a.npy'']) (Array1 [1, 0]) ([1], 16000)"
        "RandomRIR_init None True" ?d "[1, - 1]" 16000 "RandomWhamNoise_init None True"]
      empty_catalog_is_identity [of "example_world (Inr [''a.wav'']) (Array1 [1, 0]) ([1], 16000)"
        "RandomRIR_init None True" ?d "[1, - 1]" 16000 "RandomWhamNoise_init None True"]
    by (simp add: as_npfloat_def)
qed

text \<open>
  The claim as stated counts a missing asset directory as an empty catalog. Only the
  directory \<open>None\<close> is guarded: for a directory that does not exist the walk raises
  \<open>FileNotFoundError\<close>, and both effects raise where the claim has them return the input.
\<close>

theorem missing_directory_counterexample:
  "walk_paths (example_world (Inl FileNotFoundError) (Array1 [1, 0]) ([1], 16000)) ''missing'' ''.npy''
     = Inl FileNotFoundError \<and>
   RandomRIR_apply (example_world (Inl FileNotFoundError) (Array1 [1, 0]) ([1], 16000))
     (example_draws 0 (\<lambda>i. 1)) (RandomRIR_init (Some ''missing'') False) [1, - 1] 16000
     = Inl FileNotFoundError \<and>
   walk_paths (example_world (Inl FileNotFoundError) (Array1 [1, 0]) ([1], 16000)) ''missing'' ''.wav''
     = Inl FileNotFoundError \<and>
   RandomWhamNoise_apply (example_world (Inl FileNotFoundError) (Array1 [1, 0]) ([1], 16000))
     (example_draws 0 (\<lambda>i. 1)) (RandomWhamNoise_init (Some ''missing'') False) [1, - 1] 16000
     = Inl FileNotFoundError"
  by (simp add: example_defs RandomRIR_apply_def RandomWhamNoise_apply_def rir_paths_def
      noise_paths_def)

section \<open>RandomRIR: normalisation and length after resampling back\<close>

lemma np_max_eq_Inr: "np_max xs = Inr m \<longleftrightarrow> xs \<noteq> [] \<and> m = Max (set xs)"
proof (cases xs)
  case Nil
  then show ?thesis by simp
next
  case (Cons a list)
  have "fold max list a = Max (set (a # list))"
    by (rule Max.set_eq_fold [symmetric])
  then show ?thesis using Cons by auto
qed

lemma np_abs_scale: "0 \<le> c \<Longrightarrow> np_abs (np_scale xs c) = np_scale (np_abs xs) c"
  by (simp add: np_abs_def np_scale_def abs_mult)

lemma Max_scale:
  fixes c :: real
  assumes "xs \<noteq> []" and "0 \<le> c"
  shows "Max (set (np_scale xs c)) = Max (set xs) * c"
proof -
  have "mono (\<lambda>x::real. x * c)"
    using assms(2) by (simp add: mono_def mult_right_mono)
  then have "Max (set xs) * c = Max ((\<lambda>x. x * c) ` set xs)"
    using assms(1) by (intro mono_Max_commute) simp_all
  then show ?thesis by (simp add: np_scale_def)
qed

text \<open>
  When the peak after the convolution exceeds 0.99 the signal is rescaled by 0.98
  divided by that peak, and the rescaled signal, the one handed to the second
  resampling, has peak 0.98. Padding and truncation add nothing but zeros. What the
  second resampling does to the peak is the resampler's matter.
\<close>

lemma rir_normalize_scaled:
  assumes "np_max (np_abs wav) = Inr actlev" and "actlev > 0.99"
  shows "rir_normalize wav = Inr (np_scale wav (0.98 / actlev))"
  using assms by (simp add: rir_normalize_def np_scale_def)

lemma rir_normalize_peak:
  assumes "np_max (np_abs wav) = Inr actlev" and "actlev > 0.99"
  shows "np_max (np_abs (np_scale wav (0.98 / actlev))) = Inr 0.98"
proof -
  from assms(1) have ne: "np_abs wav \<noteq> []" and a: "actlev = Max (set (np_abs wav))"
    by (simp_all add: np_max_eq_Inr)
  define c where "c = 0.98 / actlev"
  have c: "0 \<le> c" and ac: "actlev * c = 0.98"
    using assms(2) by (simp_all add: c_def)
  have "Max (set (np_scale (np_abs wav) c)) = actlev * c"
    using Max_scale [OF ne c] a by simp
  then have "Max (set (np_abs (np_scale wav c))) = 0.98"
    using ac by (simp only: np_abs_scale [OF c])
  moreover have "np_abs (np_scale wav c) \<noteq> []"
    using ne by (simp add: np_abs_def np_scale_def)
  ultimately have "np_max (np_abs (np_scale wav c)) = Inr 0.98"
    by (simp only: np_max_eq_Inr) simp
  then show ?thesis by (simp only: c_def)
qed

lemma rir_fix_length_subset: "set (snd (rir_fix_length n y)) \<subseteq> insert 0 (set y)"
  by (auto simp: rir_fix_length_def np_pad_def dest: in_set_takeD)

lemma rir_fix_length_examples:
  "rir_fix_length 3 [1, 2, 3, 4, 5] = ([], [1, 2, 3])"
  "rir_fix_length 5 [1, 2, 3] = ([], [1, 2, 3, 0, 0])"
  "rir_fix_length 13 [1, 2] = ([LengthMismatch 13 2], [1, 2, 0, 0, 0, 0, 0, 0, 0, 0, 0, 0, 0])"
  by (simp_all add: rir_fix_length_def np_pad_def numeral_eq_Suc)




section \<open>Distorter in training, mode enhancer\<close>

text \<open>
  Claim C9. A \<open>Distorter\<close> built with \<open>training = True\<close> and \<open>mode = "enhancer"\<close> is the
  chain of one \<open>Choice\<close> between the \<open>Permutation\<close> of the enabled effects, in the order of
  the flags, and the empty \<open>Chain\<close>, with the weights 0.8 and 0.2.
\<close>

theorem distorter_training_enhancer:
  "Distorter hp True ''enhancer'' =
     Chain [Choice [Permutation (training_effects hp), Chain []] (Some [0.8, 0.2])] \<and>
   training_effects hp =
     (if enable_rir hp then [RandomRIR (RandomRIR_init (hp_rir_dir hp) False)] else []) @
     (if enable_reverb hp then [RandomReverb None] else []) @
     (if enable_gaussian_noise hp then [RandomGaussianNoise RandomGaussianNoise_init] else []) @
     (if enable_wham_noise hp
      then [RandomWhamNoise (RandomWhamNoise_init (hp_wham_noise_dir hp) False)] else []) @
     (if enable_overdrive hp then [RandomOverdrive] else []) @
     (if enable_equalizer hp then [RandomEqualizer] else []) @
     (if enable_filters hp then [Choice [RandomLowpassDistorter, RandomBandpassDistorter] None] else [])"
  by (simp add: Distorter_def training_effects_def)

section \<open>RandomGaussianNoise: the energy-matched mix\<close>

lemma np_sum_square_nonneg: "0 \<le> np_sum (np_square xs)"
  by (auto simp: np_sum_def np_square_def intro!: sum_list_nonneg)

lemma np_sum_square_eq_0: "np_sum (np_square xs) = 0 \<longleftrightarrow> (\<forall>x \<in> set xs. x = 0)"
  unfolding np_sum_def np_square_def by (subst sum_list_nonneg_eq_0_iff) auto

lemma np_sum_square_scale: "np_sum (np_square (np_scale xs c)) = np_sum (np_square xs) * c ^ 2"
  by (simp add: np_sum_def np_square_def np_scale_def comp_def power_mult_distrib
      sum_list_mult_const)

lemma random_random_range: "0 \<le> random_random r \<and> random_random r < 1"
proof -
  have "r mod 2 ^ 53 < (2 ^ 53 :: nat)" by simp
  then have "real (r mod 2 ^ 53) < 2 ^ 53"
    by (metis of_nat_less_iff of_nat_numeral of_nat_power)
  then show ?thesis by (simp add: random_random_def)
qed

lemma random_uniform_range:
  assumes "a \<le> b"
  shows "a \<le> random_uniform r a b \<and> random_uniform r a b \<le> b"
proof -
  let ?u = "random_random r"
  have u: "0 \<le> ?u" "?u \<le> 1" using random_random_range [of r] by simp_all
  have "0 \<le> (b - a) * ?u" using assms u by simp
  moreover have "(b - a) * ?u \<le> (b - a) * 1"
    using assms u by (intro mult_left_mono) simp_all
  ultimately show ?thesis by (simp add: random_uniform_def)
qed

lemma map2_left: "length xs = length ys \<Longrightarrow> map2 (\<lambda>x y. x * 1 + y * (1 - 1)) xs ys = (xs :: real list)"
  by (induction xs ys rule: list_induct2) simp_all

lemma map2_right: "length xs = length ys \<Longrightarrow> map2 (\<lambda>x y. x * 0 + y * (1 - 0)) xs ys = (ys :: real list)"
  by (induction xs ys rule: list_induct2) simp_all

lemma map2_all_zero:
  "length xs = length ys \<Longrightarrow> \<forall>x \<in> set xs. x = (0::real) \<Longrightarrow> \<forall>y \<in> set ys. y = (0::real) \<Longrightarrow>
     map2 (\<lambda>x y. x * a + y * b) xs ys = replicate (length xs) 0"
  by (induction xs ys rule: list_induct2) simp_all

lemma as_npfloat_replicate: "as_npfloat (replicate n x) = replicate n (Fin x)"
  by (simp add: as_npfloat_def)

lemma gaussian_noise_eq:
  "gaussian_noise d wav =
     np_multiply (as_npfloat (np_random_randn d (length wav)))
       (np_sqrt (np_true_divide (np_sum (np_square wav))
                   (np_sum (np_square (np_random_randn d (length wav))))))"
  by (simp add: gaussian_noise_def Let_def)

lemma gaussian_noise_nonzero:
  assumes "np_sum (np_square (np_random_randn d (length wav))) \<noteq> 0"
  shows "gaussian_noise d wav =
     as_npfloat (np_scale (np_random_randn d (length wav))
            (sqrt (np_sum (np_square wav) / np_sum (np_square (np_random_randn d (length wav))))))"
proof -
  have "0 \<le> np_sum (np_square wav) / np_sum (np_square (np_random_randn d (length wav)))"
    by (simp add: np_sum_square_nonneg)
  then show ?thesis
    using assms by (simp add: gaussian_noise_eq np_true_divide_def np_multiply_Fin)
qed

text \<open>
  A drawn noise of zero energy is all zero. The quotient is then inf or nan, and zero
  times its square root is nan: the rescaled noise is all nan, and so is the mix.
\<close>

lemma zero_times_sqrt_quotient:
  assumes "0 \<le> e"
  shows "np_mul (Fin 0) (np_sqrt (np_true_divide e 0)) = NaN"
  using assms by (cases "e = 0") (simp_all add: np_true_divide_def)

lemma gaussian_noise_zero:
  assumes "np_sum (np_square (np_random_randn d (length wav))) = 0"
  shows "gaussian_noise d wav = replicate (length wav) NaN"
proof -
  let ?drawn = "np_random_randn d (length wav)"
  let ?g = "np_sqrt (np_true_divide (np_sum (np_square wav)) 0)"
  have z: "\<forall>x \<in> set ?drawn. x = 0"
    using assms by (simp add: np_sum_square_eq_0)
  have g: "np_mul (Fin 0) ?g = NaN"
    by (rule zero_times_sqrt_quotient [OF np_sum_square_nonneg])
  have "np_mul (Fin x) ?g = NaN" if "x \<in> set ?drawn" for x
    using z g that by auto
  then have "map (\<lambda>x. np_mul (Fin x) ?g) ?drawn = map (\<lambda>x. NaN) ?drawn"
    by (intro map_cong) simp_all
  then have "np_multiply (as_npfloat ?drawn) ?g = replicate (length wav) NaN"
    by (simp add: np_multiply_def as_npfloat_def comp_def map_replicate_const)
  then show ?thesis by (simp add: gaussian_noise_eq assms)
qed

lemma mix_with_nan:
  "length xs = n \<Longrightarrow>
     map2 np_plus (np_multiply (as_npfloat xs) (Fin a)) (np_multiply (replicate n NaN) (Fin b))
       = replicate n NaN"
proof (induction xs arbitrary: n)
  case Nil
  then show ?case by (simp add: np_multiply_def as_npfloat_def)
next
  case (Cons x xs)
  then obtain m where n: "n = Suc m" and m: "length xs = m"
    by (cases n) auto
  from Cons.IH [OF m] show ?case
    by (simp add: n np_multiply_def as_npfloat_def)
qed

lemma RandomGaussianNoise_apply_zero:
  assumes "np_sum (np_square (np_random_randn d (length wav))) = 0"
  shows "RandomGaussianNoise_apply self d wav sr = Inr (replicate (length wav) NaN)"
  by (simp add: RandomGaussianNoise_apply_returns gaussian_noise_zero [OF assms] mix_with_nan)

lemma RandomGaussianNoise_apply_silent:
  assumes "\<forall>x \<in> set wav. x = 0"
    and "gaussian_noise d wav = as_npfloat (replicate (length wav) 0)"
  shows "RandomGaussianNoise_apply self d wav sr = Inr (replicate (length wav) (Fin 0))"
proof -
  let ?a = "gaussian_alpha self d"
  have len: "length wav = length (replicate (length wav) (0::real))"
    by simp
  have "RandomGaussianNoise_apply self d wav sr
      = Inr (as_npfloat (map2 (\<lambda>x y. x * ?a + y * (1 - ?a)) wav (replicate (length wav) 0)))"
    by (simp only: RandomGaussianNoise_apply_def Let_def assms(2) np_add_scale [OF len])
  moreover have "map2 (\<lambda>x y. x * ?a + y * (1 - ?a)) wav (replicate (length wav) 0)
      = replicate (length wav) 0"
    using map2_all_zero [OF len assms(1)] by simp
  ultimately show ?thesis by (simp add: as_npfloat_replicate)
qed

lemma energy_matched:
  assumes "np_sum (np_square noise) \<noteq> 0"
  shows "np_sum (np_square (np_scale noise (sqrt (np_sum (np_square wav) / np_sum (np_square noise)))))
     = np_sum (np_square wav)"
proof -
  have "0 \<le> np_sum (np_square wav) / np_sum (np_square noise)"
    by (simp add: np_sum_square_nonneg)
  then have "(sqrt (np_sum (np_square wav) / np_sum (np_square noise))) ^ 2
      = np_sum (np_square wav) / np_sum (np_square noise)"
    by simp
  then show ?thesis using assms by (simp add: np_sum_square_scale)
qed

text \<open>
  Claim C7. \<open>RandomGaussianNoise.apply\<close> draws a noise vector of the input's length; if
  the drawn noise has nonzero energy, the rescaled noise is finite and has the energy of
  the input (sum of squared samples), \<open>alpha\<close> is the draw of \<^verbatim>\<open>random.uniform\<close> over the
  configured range (0.8 to 1 by default) and lies in that range, and the result is
  \<open>wav * alpha + noise * (1 - alpha)\<close> sample by sample. With \<open>alpha = 1\<close> the result is the
  input, with \<open>alpha = 0\<close> it is the energy-matched noise. That the draw is uniformly
  distributed is a property of the random source, outside the model.
\<close>

theorem gaussian_energy_matched_mix:
  assumes "np_sum (np_square (np_random_randn d (length wav))) \<noteq> 0"
  shows "\<exists>noise gain alpha.
     length (np_random_randn d (length wav)) = length wav \<and>
     noise = np_scale (np_random_randn d (length wav)) gain \<and>
     gaussian_noise d wav = as_npfloat noise \<and>
     np_sum (np_square noise) = np_sum (np_square wav) \<and>
     alpha = random_uniform (uniform_draw d) (fst (alpha_range self)) (snd (alpha_range self)) \<and>
     (fst (alpha_range self) \<le> snd (alpha_range self) \<longrightarrow>
        fst (alpha_range self) \<le> alpha \<and> alpha \<le> snd (alpha_range self)) \<and>
     alpha_range RandomGaussianNoise_init = (0.8, 1) \<and>
     RandomGaussianNoise_apply self d wav sr
       = Inr (as_npfloat (map2 (\<lambda>x n. x * alpha + n * (1 - alpha)) wav noise)) \<and>
     (alpha = 1 \<longrightarrow> RandomGaussianNoise_apply self d wav sr = Inr (as_npfloat wav)) \<and>
     (alpha = 0 \<longrightarrow> RandomGaussianNoise_apply self d wav sr = Inr (as_npfloat noise))"
proof -
  let ?drawn = "np_random_randn d (length wav)"
  let ?gain = "sqrt (np_sum (np_square wav) / np_sum (np_square ?drawn))"
  let ?noise = "np_scale ?drawn ?gain"
  let ?alpha = "random_uniform (uniform_draw d) (fst (alpha_range self)) (snd (alpha_range self))"
  have n: "gaussian_noise d wav = as_npfloat ?noise"
    by (rule gaussian_noise_nonzero [OF assms])
  have len: "length wav = length ?noise"
    by (simp add: np_scale_def)
  have e: "np_sum (np_square ?noise) = np_sum (np_square wav)"
    by (rule energy_matched [OF assms])
  have a: "RandomGaussianNoise_apply self d wav sr
       = Inr (as_npfloat (map2 (\<lambda>x n. x * ?alpha + n * (1 - ?alpha)) wav ?noise))"
    by (simp add: RandomGaussianNoise_apply_def Let_def n gaussian_alpha_def np_add_scale [OF len])
  have one: "?alpha = 1 \<longrightarrow> RandomGaussianNoise_apply self d wav sr = Inr (as_npfloat wav)"
    using a map2_left [OF len] by simp
  have zero: "?alpha = 0 \<longrightarrow> RandomGaussianNoise_apply self d wav sr = Inr (as_npfloat ?noise)"
    using a map2_right [OF len] by simp
  have r: "fst (alpha_range self) \<le> snd (alpha_range self) \<longrightarrow>
        fst (alpha_range self) \<le> ?alpha \<and> ?alpha \<le> snd (alpha_range self)"
    using random_uniform_range by blast
  have i: "alpha_range RandomGaussianNoise_init = (0.8, 1)"
    by (simp add: RandomGaussianNoise_init_def)
  show ?thesis
    using n e a one zero r i by (intro exI [of _ ?noise] exI [of _ ?gain] exI [of _ ?alpha]) simp
qed

theorem gaussian_energy_matched_mix_witness:
  "np_sum (np_square (np_random_randn (example_draws 0 (\<lambda>i. 1)) (length [1, - 1, 1, - 1 :: real]))) = 4 \<and>
   np_sum (np_square [1, - 1, 1, - 1]) = 4 \<and>
   gaussian_noise (example_draws 0 (\<lambda>i. 1)) [1, - 1, 1, - 1] = [Fin 1, Fin 1, Fin 1, Fin 1] \<and>
   random_uniform (uniform_draw (example_draws 0 (\<lambda>i. 1))) 1 1 = 1 \<and>
   RandomGaussianNoise_apply \<lparr>alpha_range = (1, 1)\<rparr> (example_draws 0 (\<lambda>i. 1)) [1, - 1, 1, - 1] 16000
     = Inr [Fin 1, Fin (- 1), Fin 1, Fin (- 1)] \<and>
   random_uniform (uniform_draw (example_draws 0 (\<lambda>i. 1))) 0 1 = 0 \<and>
   RandomGaussianNoise_apply \<lparr>alpha_range = (0, 1)\<rparr> (example_draws 0 (\<lambda>i. 1)) [1, - 1, 1, - 1] 16000
     = Inr [Fin 1, Fin 1, Fin 1, Fin 1]"
proof -
  let ?d = "example_draws 0 (\<lambda>i. 1)"
  let ?wav = "[1, - 1, 1, - 1 :: real]"
  have e: "np_sum (np_square (np_random_randn ?d (length ?wav))) = 4"
    by (simp add: example_defs np_sum_def np_square_def np_random_randn_def upt_rec)
  then have ne: "np_sum (np_square (np_random_randn ?d (length ?wav))) \<noteq> 0"
    by simp
  have n: "gaussian_noise ?d ?wav = [Fin 1, Fin 1, Fin 1, Fin 1]"
    by (simp add: example_defs gaussian_defs)
  have a1: "random_uniform (uniform_draw ?d) 1 1 = 1"
    by (simp add: random_uniform_def)
  have a0: "random_uniform (uniform_draw ?d) 0 1 = 0"
    by (simp add: example_defs random_uniform_def random_random_def)
  show ?thesis
    using e n a1 a0
      gaussian_energy_matched_mix [OF ne, of "\<lparr>alpha_range = (1, 1)\<rparr>" 16000]
      gaussian_energy_matched_mix [OF ne, of "\<lparr>alpha_range = (0, 1)\<rparr>" 16000]
    by (auto simp add: np_sum_def np_square_def as_npfloat_def)
qed

section \<open>RandomGaussianNoise on silent input\<close>

text \<open>
  Claim C10. For an all-zero input and a drawn noise of nonzero energy, whatever the
  range of \<open>alpha\<close> and its draw: the quotient of the energies is \<open>0 / noise_energy = 0\<close>,
  with no division by zero, its square root is 0, the rescaled noise is all zero and
  \<open>apply\<close> returns the all-zero waveform of the input's length.
\<close>

theorem gaussian_silent_input_stays_silent:
  assumes "\<forall>x \<in> set wav. x = 0"
    and "np_sum (np_square (np_random_randn d (length wav))) \<noteq> 0"
  shows "np_true_divide (np_sum (np_square wav)) (np_sum (np_square (np_random_randn d (length wav))))
       = Fin 0 \<and>
     np_sqrt (Fin 0) = Fin 0 \<and>
     gaussian_noise d wav = replicate (length wav) (Fin 0) \<and>
     RandomGaussianNoise_apply self d wav sr = Inr (replicate (length wav) (Fin 0))"
proof -
  have w: "np_sum (np_square wav) = 0"
    using assms(1) by (simp add: np_sum_square_eq_0)
  have n: "gaussian_noise d wav = as_npfloat (np_scale (np_random_randn d (length wav)) 0)"
    using gaussian_noise_nonzero [OF assms(2)] w by simp
  have z: "np_scale (np_random_randn d (length wav)) 0 = replicate (length wav) 0"
    by (simp add: np_scale_def np_random_randn_def map_replicate_const)
  have "RandomGaussianNoise_apply self d wav sr = Inr (replicate (length wav) (Fin 0))"
    using n z by (intro RandomGaussianNoise_apply_silent [OF assms(1)]) simp
  then show ?thesis
    using assms(2) w n z by (simp add: np_true_divide_def as_npfloat_replicate)
qed

theorem gaussian_silent_input_stays_silent_witness:
  "list_all (\<lambda>x. x = 0) [0, 0 :: real] \<and>
   np_sum (np_square (np_random_randn (example_draws 0 (\<lambda>i. 1)) (length [0, 0 :: real]))) = 2 \<and>
   gaussian_noise (example_draws 0 (\<lambda>i. 1)) [0, 0] = [Fin 0, Fin 0] \<and>
   RandomGaussianNoise_apply RandomGaussianNoise_init (example_draws 0 (\<lambda>i. 1)) [0, 0] 16000
     = Inr [Fin 0, Fin 0]"
proof -
  let ?d = "example_draws 0 (\<lambda>i. 1)"
  have z: "\<forall>x \<in> set [0, 0 :: real]. x = 0"
    by simp
  have e: "np_sum (np_square (np_random_randn ?d (length [0, 0 :: real]))) = 2"
    by (simp add: example_defs np_sum_def np_square_def np_random_randn_def upt_rec)
  then have ne: "np_sum (np_square (np_random_randn ?d (length [0, 0 :: real]))) \<noteq> 0"
    by simp
  show ?thesis
    using e gaussian_silent_input_stays_silent [OF z ne, of RandomGaussianNoise_init 16000]
    by (simp add: numeral_2_eq_2)
qed

text \<open>
  Claim C4, as amended. For an all-zero input the rescaling step divides the input's
  energy, which is zero, by the energy of the drawn noise: the divisor is the noise
  energy. The division is by zero exactly when every drawn noise sample is zero (the
  empty waveform included); the quotient is then nan, and \<open>apply\<close> still returns, a
  waveform of nan samples of the input's length. For any other drawn noise the quotient
  is 0 and the result is silent.
\<close>

theorem gaussian_division_by_noise_energy:
  assumes "\<forall>x \<in> set wav. x = 0"
  shows "np_sum (np_square wav) = 0 \<and>
     gaussian_noise d wav =
       np_multiply (as_npfloat (np_random_randn d (length wav)))
         (np_sqrt (np_true_divide 0 (np_sum (np_square (np_random_randn d (length wav)))))) \<and>
     (np_sum (np_square (np_random_randn d (length wav))) = 0
        \<longleftrightarrow> (\<forall>x \<in> set (np_random_randn d (length wav)). x = 0)) \<and>
     (np_sum (np_square (np_random_randn d (length wav))) = 0 \<longrightarrow>
        np_true_divide (np_sum (np_square wav)) (np_sum (np_square (np_random_randn d (length wav))))
          = NaN \<and>
        RandomGaussianNoise_apply self d wav sr = Inr (replicate (length wav) NaN)) \<and>
     (np_sum (np_square (np_random_randn d (length wav))) \<noteq> 0 \<longrightarrow>
        np_true_divide (np_sum (np_square wav)) (np_sum (np_square (np_random_randn d (length wav))))
          = Fin 0 \<and>
        RandomGaussianNoise_apply self d wav sr = Inr (replicate (length wav) (Fin 0)))"
proof -
  let ?drawn = "np_random_randn d (length wav)"
  have w: "np_sum (np_square wav) = 0"
    using assms by (simp add: np_sum_square_eq_0)
  have g: "gaussian_noise d wav =
       np_multiply (as_npfloat ?drawn) (np_sqrt (np_true_divide 0 (np_sum (np_square ?drawn))))"
    by (simp only: gaussian_noise_eq w)
  have nz: "RandomGaussianNoise_apply self d wav sr = Inr (replicate (length wav) (Fin 0))"
    if ne: "np_sum (np_square ?drawn) \<noteq> 0"
  proof -
    have n: "gaussian_noise d wav = as_npfloat (np_scale ?drawn 0)"
      using gaussian_noise_nonzero [OF ne] w by simp
    have z: "np_scale ?drawn 0 = replicate (length wav) 0"
      by (simp add: np_scale_def np_random_randn_def map_replicate_const)
    show ?thesis
      using n z by (intro RandomGaussianNoise_apply_silent [OF assms]) simp
  qed
  have q0: "np_sum (np_square ?drawn) = 0 \<longrightarrow>
      np_true_divide (np_sum (np_square wav)) (np_sum (np_square ?drawn)) = NaN"
    by (simp add: w np_true_divide_def)
  have q: "np_sum (np_square ?drawn) \<noteq> 0 \<longrightarrow>
      np_true_divide (np_sum (np_square wav)) (np_sum (np_square ?drawn)) = Fin 0"
    by (simp add: w np_true_divide_def)
  show ?thesis
    using w g q0 q nz RandomGaussianNoise_apply_zero [of d wav self sr]
      np_sum_square_eq_0 [of ?drawn] by blast
qed

theorem gaussian_division_by_noise_energy_witness:
  "list_all (\<lambda>x. x = 0) [0, 0 :: real] \<and>
   np_sum (np_square [0, 0]) = 0 \<and>
   np_sum (np_square (np_random_randn (example_draws 0 (\<lambda>i. 1)) (length [0, 0 :: real]))) = 2 \<and>
   RandomGaussianNoise_apply RandomGaussianNoise_init (example_draws 0 (\<lambda>i. 1)) [0, 0] 16000
     = Inr [Fin 0, Fin 0] \<and>
   np_sum (np_square (np_random_randn (example_draws 0 (\<lambda>i. 0)) (length [0, 0 :: real]))) = 0 \<and>
   RandomGaussianNoise_apply RandomGaussianNoise_init (example_draws 0 (\<lambda>i. 0)) [0, 0] 16000
     = Inr [NaN, NaN]"
proof -
  have z: "\<forall>x \<in> set [0, 0 :: real]. x = 0"
    by simp
  have e1: "np_sum (np_square (np_random_randn (example_draws 0 (\<lambda>i. 1)) (length [0, 0 :: real]))) = 2"
    by (simp add: example_defs np_sum_def np_square_def np_random_randn_def upt_rec)
  have e0: "np_sum (np_square (np_random_randn (example_draws 0 (\<lambda>i. 0)) (length [0, 0 :: real]))) = 0"
    by (simp add: example_defs np_sum_def np_square_def np_random_randn_def upt_rec)
  show ?thesis
    using e1 e0
      gaussian_division_by_noise_energy [OF z, of "example_draws 0 (\<lambda>i. 1)" RandomGaussianNoise_init 16000]
      gaussian_division_by_noise_energy [OF z, of "example_draws 0 (\<lambda>i. 0)" RandomGaussianNoise_init 16000]
    by (simp add: numeral_2_eq_2)
qed

text \<open>
  The claim as stated has the silent input's energy as the divisor. For the silent input
  \<open>[0, 0]\<close> and the drawn noise \<open>[1, 1]\<close> the divisor is 2, the quotient is 0 and \<open>apply\<close>
  returns \<open>[0, 0]\<close>: no division by zero.
\<close>

theorem gaussian_silent_division_counterexample:
  "list_all (\<lambda>x. x = 0) [0, 0 :: real] \<and>
   np_sum (np_square [0, 0]) = 0 \<and>
   np_sum (np_square (np_random_randn (example_draws 0 (\<lambda>i. 1)) (length [0, 0 :: real]))) = 2 \<and>
   np_true_divide (np_sum (np_square [0, 0]))
     (np_sum (np_square (np_random_randn (example_draws 0 (\<lambda>i. 1)) (length [0, 0 :: real])))) = Fin 0 \<and>
   RandomGaussianNoise_apply RandomGaussianNoise_init (example_draws 0 (\<lambda>i. 1)) [0, 0] 16000
     = Inr [Fin 0, Fin 0]"
  by (simp add: example_defs gaussian_defs)

section \<open>RandomWhamNoise: the guarded division\<close>

lemma wham_energy_pos: "0 < np_sum (np_square xs) + 1 / 10 ^ 7"
proof -
  have "(0::real) < 1 / 10 ^ 7" by simp
  then show ?thesis
    using np_sum_square_nonneg [of xs] by linarith
qed

lemma wham_start_range:
  assumes "n \<le> m"
    and "(if det then Inr 0 else random_randint r 0 (int m - int n)) = Inr start"
  shows "0 \<le> start \<and> nat start + n \<le> m"
proof (cases det)
  case True
  then show ?thesis using assms by simp
next
  case False
  then have "random_randint r 0 (int m - int n) = Inr start"
    using assms(2) by simp
  then have "0 \<le> start \<and> start \<le> int m - int n"
    by (rule random_randint_range)
  then show ?thesis by linarith
qed

lemma wham_start_total:
  assumes "n \<le> m"
  shows "\<exists>start. (if det then Inr 0 else random_randint r 0 (int m - int n)) = Inr start"
  using assms by (simp add: random_randint_def)

lemma wham_align_total: "\<exists>noise2. wham_align d self wav noise1 = Inr noise2"
proof -
  consider "length noise1 < length wav" | "length noise1 > length wav" | "length noise1 = length wav"
    by linarith
  then show ?thesis
  proof cases
    case 1
    then have le: "length noise1 \<le> length wav" by simp
    obtain start where s: "(if wham_deterministic self then Inr 0
        else random_randint (randint_draw d) 0 (int (length wav) - int (length noise1))) = Inr start"
      using wham_start_total [OF le] by blast
    have "nat start + length noise1 \<le> length wav"
      using wham_start_range [OF le s] by simp
    then have "\<exists>out. slice_assign (np_zeros (length wav)) (nat start) noise1 = Inr out"
      by (simp add: slice_assign_def Let_def np_zeros_def min_def)
    then show ?thesis using 1 s by (simp add: wham_align_def)
  next
    case 2
    then have le: "length wav \<le> length noise1" by simp
    obtain start where s: "(if wham_deterministic self then Inr 0
        else random_randint (randint_draw d) 0 (int (length noise1) - int (length wav))) = Inr start"
      using wham_start_total [OF le] by blast
    then show ?thesis using 2 by (simp add: wham_align_def)
  next
    case 3
    then show ?thesis by (simp add: wham_align_def)
  qed
qed

lemma wham_divide:
  "np_true_divide (np_sum (np_square wav) + 1 / 10 ^ 7) (np_sum (np_square noise) + 1 / 10 ^ 7)
     = Fin ((np_sum (np_square wav) + 1 / 10 ^ 7) / (np_sum (np_square noise) + 1 / 10 ^ 7))"
  using wham_energy_pos [of noise] by (simp only: np_true_divide_def) simp

lemma wham_gain:
  "np_sqrt (np_true_divide (np_sum (np_square wav) + 1 / 10 ^ 7) (np_sum (np_square noise) + 1 / 10 ^ 7))
     = Fin (sqrt ((np_sum (np_square wav) + 1 / 10 ^ 7) / (np_sum (np_square noise) + 1 / 10 ^ 7)))"
proof -
  have "0 \<le> (np_sum (np_square wav) + 1 / 10 ^ 7) / (np_sum (np_square noise) + 1 / 10 ^ 7)"
    using wham_energy_pos [of noise] wham_energy_pos [of wav] by (intro divide_nonneg_pos) simp_all
  then show ?thesis
    by (simp only: wham_divide np_sqrt.simps) simp
qed

lemma map2_scaled:
  "map2 (\<lambda>x y. x * a + y * b) xs (np_scale ys g) = map2 (\<lambda>x y. x * a + y * g * b) xs ys"
  by (simp add: np_scale_def zip_map2 split_def)

lemma wham_mix_eq:
  assumes "length noise = length wav"
  shows "wham_mix self d wav noise =
     Inr (as_npfloat (map2 (\<lambda>x n. x * wham_alpha self d +
            n * sqrt ((np_sum (np_square wav) + 1 / 10 ^ 7) / (np_sum (np_square noise) + 1 / 10 ^ 7))
              * (1 - wham_alpha self d)) wav noise))"
proof -
  let ?g = "sqrt ((np_sum (np_square wav) + 1 / 10 ^ 7) / (np_sum (np_square noise) + 1 / 10 ^ 7))"
  have len: "length wav = length (np_scale noise ?g)"
    using assms by (simp add: np_scale_def)
  have "wham_mix self d wav noise =
      np_add (np_multiply (as_npfloat wav) (Fin (wham_alpha self d)))
        (np_multiply (as_npfloat (np_scale noise ?g)) (Fin (1 - wham_alpha self d)))"
    by (simp only: wham_mix_def Let_def wham_gain np_multiply_Fin)
  then show ?thesis
    by (simp only: np_add_scale [OF len] map2_scaled)
qed

lemma sample_noise_Some:
  assumes "sample_noise w d self = Inr (Some r)"
  shows "\<exists>paths. noise_paths w self = Inr paths \<and> length paths \<noteq> 0"
  using assms by (auto simp: sample_noise_def and_then_eq_Inr split: if_splits)

text \<open>
  Claim C8. In \<open>RandomWhamNoise.apply\<close> both energies carry the additive \<open>1e-7\<close>, so the
  divisor is strictly positive for every input and every noise, the silent input
  included, and the quotient is finite. For every noise aligned to the input the mix
  returns the finite waveform \<open>wav * alpha + noise * gain * (1 - alpha)\<close>, where \<open>gain\<close> is
  the square root of that quotient. The alignment always yields a noise of the input's
  length, so once the noise clip is loaded (and resampled when the rates differ) \<open>apply\<close>
  returns that mix.
\<close>

theorem wham_division_is_safe:
  "0 < np_sum (np_square noise) + 1 / 10 ^ 7 \<and>
   0 < np_sum (np_square wav) + 1 / 10 ^ 7 \<and>
   np_true_divide (np_sum (np_square wav) + 1 / 10 ^ 7) (np_sum (np_square noise) + 1 / 10 ^ 7)
     = Fin ((np_sum (np_square wav) + 1 / 10 ^ 7) / (np_sum (np_square noise) + 1 / 10 ^ 7)) \<and>
   (length noise = length wav \<longrightarrow>
      wham_mix self d wav noise =
        Inr (as_npfloat (map2 (\<lambda>x n. x * wham_alpha self d +
               n * sqrt ((np_sum (np_square wav) + 1 / 10 ^ 7) / (np_sum (np_square noise) + 1 / 10 ^ 7))
                 * (1 - wham_alpha self d)) wav noise))) \<and>
   (\<exists>noise2. wham_align d self wav noise1 = Inr noise2 \<and> length noise2 = length wav) \<and>
   (sample_noise w d self = Inr (Some (clip, nsr)) \<and>
    (if nsr \<noteq> sr then resample w clip nsr sr else Inr clip) = Inr noise1 \<longrightarrow>
      (\<exists>noise2. wham_align d self wav noise1 = Inr noise2 \<and>
         RandomWhamNoise_apply w d self wav sr =
           Inr (as_npfloat (map2 (\<lambda>x n. x * wham_alpha self d +
                  n * sqrt ((np_sum (np_square wav) + 1 / 10 ^ 7) / (np_sum (np_square noise2) + 1 / 10 ^ 7))
                    * (1 - wham_alpha self d)) wav noise2))))"
proof -
  obtain noise2 where al: "wham_align d self wav noise1 = Inr noise2"
    using wham_align_total by blast
  then have len: "length noise2 = length wav"
    by (rule wham_align_length)
  have ap: "RandomWhamNoise_apply w d self wav sr = wham_mix self d wav noise2"
    if s: "sample_noise w d self = Inr (Some (clip, nsr))"
      and r: "(if nsr \<noteq> sr then resample w clip nsr sr else Inr clip) = Inr noise1"
  proof -
    obtain paths where p: "noise_paths w self = Inr paths" and ne: "length paths \<noteq> 0"
      using sample_noise_Some [OF s] by blast
    show ?thesis
      by (simp only: RandomWhamNoise_apply_def p and_then_Inr ne if_False s option.case
          prod.case r al)
  qed
  show ?thesis
    using wham_energy_pos [of noise] wham_energy_pos [of wav] wham_divide [of wav noise]
      wham_mix_eq [of noise wav self d] al len ap wham_mix_eq [OF len, of self d]
    by auto
qed

theorem wham_division_is_safe_witness:
  "length [1, 1 :: real] = length [0, 0 :: real] \<and>
   wham_mix (RandomWhamNoise_init (Some ''noise'') False) (example_draws 0 (\<lambda>i. 1)) [0, 0] [1, 1]
     = Inr [Fin (sqrt ((1 / 10 ^ 7) / (2 + 1 / 10 ^ 7)) * (1 / 5)),
            Fin (sqrt ((1 / 10 ^ 7) / (2 + 1 / 10 ^ 7)) * (1 / 5))] \<and>
   sample_noise (example_world (Inr [''a.wav'']) (Array1 [1, 0]) ([1, 1, 5], 16000)) (example_draws 0 (\<lambda>i. 1))
     (RandomWhamNoise_init (Some ''noise'') False) = Inr (Some ([1, 1, 5], 16000)) \<and>
   wham_align (example_draws 0 (\<lambda>i. 1)) (RandomWhamNoise_init (Some ''noise'') False) [0, 0] [1, 1, 5]
     = Inr [1, 1] \<and>
   RandomWhamNoise_apply (example_world (Inr [''a.wav'']) (Array1 [1, 0]) ([1, 1, 5], 16000))
      (example_draws 0 (\<lambda>i. 1)) (RandomWhamNoise_init (Some ''noise'') False) [0, 0] 16000
     = Inr [Fin (sqrt ((1 / 10 ^ 7) / (2 + 1 / 10 ^ 7)) * (1 / 5)),
            Fin (sqrt ((1 / 10 ^ 7) / (2 + 1 / 10 ^ 7)) * (1 / 5))]"
proof -
  let ?w = "example_world (Inr [''a.wav'']) (Array1 [1, 0]) ([1, 1, 5], 16000)"
  let ?d = "example_draws 0 (\<lambda>i. 1)"
  let ?n = "RandomWhamNoise_init (Some ''noise'') False"
  have s: "sample_noise ?w ?d ?n = Inr (Some ([1, 1, 5], 16000))"
    by (simp add: example_defs sample_noise_def noise_paths_def random_choice_def)
  have a: "wham_align ?d ?n [0, 0] [1, 1, 5] = Inr [1, 1]"
    by (simp add: example_defs wham_align_def random_randint_def)
  have al: "wham_alpha ?n ?d = 4 / 5"
    by (simp add: example_defs wham_alpha_def random_uniform_def random_random_def)
  show ?thesis
    using s a wham_division_is_safe [of "[1, 1]" "[0, 0]" ?n ?d "[1, 1, 5]" ?w "[1, 1, 5]" 16000 16000]
    by (simp add: al np_sum_def np_square_def as_npfloat_def)
qed

section \<open>Deterministic mode\<close>

text \<open>
  With \<open>deterministic\<close> set, \<open>RandomRIR.apply\<close> reads none of the draws.
  \<open>RandomWhamNoise.apply\<close> reads none but the one behind \<^verbatim>\<open>random.uniform\<close>: the
  path and the offset are fixed, \<open>alpha\<close> is not.
\<close>

lemma sample_rir_deterministic:
  "deterministic self \<Longrightarrow> sample_rir w d1 self = sample_rir w d2 self"
  by (cases "rir_paths w self") (simp_all add: sample_rir_def)

lemma RandomRIR_apply_deterministic:
  assumes "deterministic self"
  shows "RandomRIR_apply w d1 self wav sr = RandomRIR_apply w d2 self wav sr"
proof -
  have "rir_resampled w d1 self wav sr = rir_resampled w d2 self wav sr"
    by (simp only: rir_resampled_def sample_rir_deterministic [OF assms, of w d1 d2])
  then show ?thesis
    by (simp only: RandomRIR_apply_def)
qed

lemma RandomWhamNoise_apply_deterministic:
  assumes "wham_deterministic self" and "uniform_draw d1 = uniform_draw d2"
  shows "RandomWhamNoise_apply w d1 self wav sr = RandomWhamNoise_apply w d2 self wav sr"
proof -
  have s: "sample_noise w d1 self = sample_noise w d2 self"
    using assms(1) by (cases "noise_paths w self") (simp_all add: sample_noise_def)
  have a: "wham_align d1 self wav noise = wham_align d2 self wav noise" for noise
    using assms(1) by (simp add: wham_align_def)
  have m: "wham_mix self d1 wav noise = wham_mix self d2 wav noise" for noise
    using assms(2) by (simp add: wham_mix_def wham_alpha_def)
  show ?thesis
    by (simp only: RandomWhamNoise_apply_def s a m)
qed

text \<open>
  Claim C2. Two calls of a \<open>RandomWhamNoise\<close> built with \<open>deterministic = True\<close> over the
  same one-file catalog, on the same input \<open>[1]\<close> at the same rate, return \<open>[0.6]\<close> and
  \<open>[0.8]\<close> when \<^verbatim>\<open>random.uniform\<close> draws 0.8 and then 0.9: the outputs differ, where
  the claim has them identical.
\<close>

theorem wham_deterministic_outputs_differ:
  "wham_deterministic (RandomWhamNoise_init (Some ''noise'') True) \<and>
   RandomWhamNoise_apply (example_world (Inr [''a.wav'']) (Array1 [1, 0]) ([- 1], 16000))
     (example_draws 0 (\<lambda>i. 0)) (RandomWhamNoise_init (Some ''noise'') True) [1] 16000
     = Inr [Fin (3 / 5)] \<and>
   RandomWhamNoise_apply (example_world (Inr [''a.wav'']) (Array1 [1, 0]) ([- 1], 16000))
     (example_draws (2 ^ 52) (\<lambda>i. 0)) (RandomWhamNoise_init (Some ''noise'') True) [1] 16000
     = Inr [Fin (4 / 5)]"
  by (simp add: example_defs wham_defs)

end
